theory Spec2Isabelle
  imports Complex_Main "HOL-Library.Word" "HOL-Library.Multiset"
begin

section \<open>The guestbook backend (src/backend/server.js) as a shallow embedding\<close>

text \<open>
  The backend is an Express application with two routes on \<^verbatim>\<open>/api/messages\<close>. Both handlers
  talk to a MySQL table \<^verbatim>\<open>messages\<close> through the module-level handle \<^verbatim>\<open>dbPool\<close> and to a Redis
  server through the module-level handle \<^verbatim>\<open>redisClient\<close>. The embedding keeps the two handles,
  the contents of the table and of the Redis key space, and a trace of every external call
  and console line in one record; a handler is a function from that record to an outcome and
  the updated record. What the two servers do on a call (whether it throws, what time it is)
  is the environment of the request, given as a parameter.
\<close>

subsection \<open>JavaScript values\<close>

text \<open>A JavaScript string is a sequence of UTF-16 code units.\<close>

type_synonym js_string = "16 word list"

text \<open>
  The values \<^verbatim>\<open>express.json()\<close> can leave in \<^verbatim>\<open>req.body.content\<close>: \<open>JUndefined\<close> when the body has
  no such property, otherwise a parsed JSON value. A parsed number is a finite double, hence
  a rational.
\<close>

datatype js_value =
    JUndefined
  | JNull
  | JBool bool
  | JNumber rat
  | JString js_string
  | JArray "js_value list"
  | JObject "(js_string \<times> js_value) list"

text \<open>\<^verbatim>\<open>!content\<close> is the negation of ToBoolean.\<close>

fun truthy :: "js_value \<Rightarrow> bool" where
  "truthy JUndefined = False"
| "truthy JNull = False"
| "truthy (JBool b) = b"
| "truthy (JNumber n) = (n \<noteq> 0)"
| "truthy (JString s) = (s \<noteq> [])"
| "truthy (JArray xs) = True"
| "truthy (JObject kvs) = True"

text \<open>
  \<^verbatim>\<open>String.prototype.trim\<close> removes WhiteSpace and LineTerminator code units from both ends
  (ECMAScript: TAB, VT, FF, SP, NBSP, ZWNBSP, the category Zs, LF, CR, LS, PS).
\<close>

definition is_white_space :: "16 word \<Rightarrow> bool" where
  "is_white_space c =
     (c = 0x0009 \<or> c = 0x000A \<or> c = 0x000B \<or> c = 0x000C \<or> c = 0x000D \<or> c = 0x0020
      \<or> c = 0x00A0 \<or> c = 0x1680 \<or> (0x2000 \<le> c \<and> c \<le> 0x200A) \<or> c = 0x2028 \<or> c = 0x2029
      \<or> c = 0x202F \<or> c = 0x205F \<or> c = 0x3000 \<or> c = 0xFEFF)"

definition trim :: "js_string \<Rightarrow> js_string" where
  "trim s = rev (dropWhile is_white_space (rev (dropWhile is_white_space s)))"

datatype js_error = TypeError | MysqlError | RedisError

text \<open>
  The method call \<^verbatim>\<open>content.trim()\<close>: only a string has a callable \<^verbatim>\<open>trim\<close>. On a number or a
  boolean the property is undefined, on an object or array parsed from JSON it is undefined or
  some JSON value, never a function, and on \<^verbatim>\<open>undefined\<close> and \<^verbatim>\<open>null\<close> the property access itself
  fails: a TypeError in every case.
\<close>

fun call_trim :: "js_value \<Rightarrow> js_error + js_string" where
  "call_trim (JString s) = Inr (trim s)"
| "call_trim v = Inl TypeError"

subsection \<open>The table, the cache and the server's state\<close>

text \<open>A row of \<^verbatim>\<open>messages(id INT AUTO_INCREMENT PRIMARY KEY, content TEXT NOT NULL, created_at TIMESTAMP)\<close>.\<close>

record message =
  id' :: nat
  content :: js_string
  created_at :: nat

text \<open>The table: its rows in insertion order and the next AUTO_INCREMENT value.\<close>

record store =
  rows :: "message list"
  auto_increment :: nat

text \<open>
  The text that \<^verbatim>\<open>JSON.stringify(rows)\<close> produces is kept as the rows it encodes; \<^verbatim>\<open>JSON.parse\<close>
  reads them back. Such a text is never the empty string (an empty result is \<^verbatim>\<open>[]\<close>), so the
  test \<^verbatim>\<open>if (cachedMessages)\<close> holds exactly when the reply of GET is not null.
\<close>

datatype json_text = JsonText "message list"

fun JSON_stringify :: "message list \<Rightarrow> json_text" where
  "JSON_stringify rs = JsonText rs"

fun JSON_parse :: "json_text \<Rightarrow> message list" where
  "JSON_parse (JsonText rs) = rs"

record redis_entry =
  text_value :: json_text
  expires_at :: nat

record redis_client =
  isOpen :: bool

datatype pool = Pool

datatype event =
    ConsoleLog string
  | ConsoleError string
  | RedisGet string
  | RedisSetEx string nat json_text
  | RedisDel string
  | DbSelectAll
  | DbInsert js_string
  | DbSelectById nat

record world =
  dbPool :: "pool option"
  redisClient :: "redis_client option"
  db :: store
  redis :: "string \<rightharpoonup> redis_entry"
  trace :: "event list"

text \<open>
  What a request meets outside the process: the time on the servers' clocks (seconds) and,
  for each of the six external calls, whether it throws. A call that throws changes nothing
  on its server.
\<close>

record env =
  now :: nat
  redis_get_throws :: bool
  redis_setEx_throws :: bool
  redis_del_throws :: bool
  db_select_all_throws :: bool
  db_insert_throws :: bool
  db_select_by_id_throws :: bool

text \<open>The environment at time \<open>t\<close> in which no call throws.\<close>

definition calm :: "nat \<Rightarrow> env" where
  "calm t = \<lparr>now = t, redis_get_throws = False, redis_setEx_throws = False,
             redis_del_throws = False, db_select_all_throws = False, db_insert_throws = False,
             db_select_by_id_throws = False\<rparr>"

subsection \<open>Sequencing, exceptions and try/catch\<close>

type_synonym 'a io = "world \<Rightarrow> (js_error + 'a) \<times> world"

definition io_return :: "'a \<Rightarrow> 'a io" where
  "io_return x w = (Inr x, w)"

definition io_lift :: "js_error + 'a \<Rightarrow> 'a io" where
  "io_lift r w = (r, w)"

definition io_bind :: "'a io \<Rightarrow> ('a \<Rightarrow> 'b io) \<Rightarrow> 'b io" where
  "io_bind m f w = (case m w of (Inl err, w') \<Rightarrow> (Inl err, w') | (Inr x, w') \<Rightarrow> f x w')"

definition try_catch :: "'a io \<Rightarrow> (js_error \<Rightarrow> 'a io) \<Rightarrow> 'a io" where
  "try_catch m h w = (case m w of (Inl err, w') \<Rightarrow> h err w' | (Inr x, w') \<Rightarrow> (Inr x, w'))"

definition io_if :: "(world \<Rightarrow> bool) \<Rightarrow> 'a io \<Rightarrow> 'a io \<Rightarrow> 'a io" where
  "io_if c m n w = (if c w then m w else n w)"

definition emit :: "event \<Rightarrow> world \<Rightarrow> world" where
  "emit ev w = w\<lparr>trace := trace w @ [ev]\<rparr>"

definition console_log :: "string \<Rightarrow> unit io" where
  "console_log s w = (Inr (), emit (ConsoleLog s) w)"

definition console_error :: "string \<Rightarrow> unit io" where
  "console_error s w = (Inr (), emit (ConsoleError s) w)"

subsection \<open>The Redis commands the handlers issue\<close>

definition REDIS_MESSAGES_KEY :: string where
  "REDIS_MESSAGES_KEY = ''guestbook:messages''"

text \<open>A key is readable until its expiry time.\<close>

definition live :: "nat \<Rightarrow> (string \<rightharpoonup> redis_entry) \<Rightarrow> string \<Rightarrow> json_text option" where
  "live t m k = (case m k of None \<Rightarrow> None
                 | Some ent \<Rightarrow> if t < expires_at ent then Some (text_value ent) else None)"

definition redis_get :: "env \<Rightarrow> string \<Rightarrow> json_text option io" where
  "redis_get e k w =
     (let w' = emit (RedisGet k) w
      in if redis_get_throws e then (Inl RedisError, w')
         else (Inr (live (now e) (redis w) k), w'))"

definition redis_setEx :: "env \<Rightarrow> string \<Rightarrow> nat \<Rightarrow> json_text \<Rightarrow> unit io" where
  "redis_setEx e k seconds v w =
     (let w' = emit (RedisSetEx k seconds v) w
      in if redis_setEx_throws e then (Inl RedisError, w')
         else (Inr (), w'\<lparr>redis := (redis w)(k \<mapsto> \<lparr>text_value = v, expires_at = now e + seconds\<rparr>)\<rparr>))"

text \<open>DEL removes the key and replies with the number of keys it removed.\<close>

definition redis_del :: "env \<Rightarrow> string \<Rightarrow> nat io" where
  "redis_del e k w =
     (let w' = emit (RedisDel k) w
      in if redis_del_throws e then (Inl RedisError, w')
         else (Inr (if live (now e) (redis w) k = None then 0 else 1),
               w'\<lparr>redis := (redis w)(k := None)\<rparr>))"

text \<open>\<^verbatim>\<open>redisClient && redisClient.isOpen\<close>\<close>

definition redis_available :: "world \<Rightarrow> bool" where
  "redis_available w = (case redisClient w of None \<Rightarrow> False | Some c \<Rightarrow> isOpen c)"

subsection \<open>The SQL statements the handlers issue\<close>

text \<open>
  \<^verbatim>\<open>SELECT id, content, created_at FROM messages ORDER BY created_at DESC\<close>. MySQL leaves the
  order of rows with equal \<^verbatim>\<open>created_at\<close> open; here the later insert comes first.
\<close>

definition select_order_by_created_at_desc :: "message list \<Rightarrow> message list" where
  "select_order_by_created_at_desc rs = rev (sort_key created_at rs)"

definition db_query_all :: "env \<Rightarrow> message list io" where
  "db_query_all e w =
     (let w' = emit DbSelectAll w
      in if db_select_all_throws e then (Inl MysqlError, w')
         else (Inr (select_order_by_created_at_desc (rows (db w))), w'))"

text \<open>
  \<^verbatim>\<open>INSERT INTO messages (content) VALUES (?)\<close>: the row gets the next AUTO_INCREMENT value
  and CURRENT_TIMESTAMP; the reply carries the id as \<^verbatim>\<open>insertId\<close>.
\<close>

definition db_execute_insert :: "env \<Rightarrow> js_string \<Rightarrow> nat io" where
  "db_execute_insert e c w =
     (let w' = emit (DbInsert c) w
      in if db_insert_throws e then (Inl MysqlError, w')
         else (let i = auto_increment (db w)
               in (Inr i,
                   w'\<lparr>db := \<lparr>rows = rows (db w) @ [\<lparr>id' = i, content = c, created_at = now e\<rparr>],
                             auto_increment = i + 1\<rparr>\<rparr>)))"

text \<open>\<^verbatim>\<open>SELECT id, content, created_at FROM messages WHERE id = ?\<close>\<close>

definition db_query_by_id :: "env \<Rightarrow> nat \<Rightarrow> message list io" where
  "db_query_by_id e i w =
     (let w' = emit (DbSelectById i) w
      in if db_select_by_id_throws e then (Inl MysqlError, w')
         else (Inr (filter (\<lambda>r. id' r = i) (rows (db w))), w'))"

subsection \<open>The two handlers\<close>

datatype body =
    JsonRows "message list"
  | JsonRow "message option"
  | JsonError string

datatype response = Response nat body

text \<open>
  \<^verbatim>\<open>app.get('/api/messages', ...)\<close>, lines 134 to 160. The first step yields \<open>Some\<close> of a response
  where the source leaves through \<^verbatim>\<open>return res.json(...)\<close> at line 140.
\<close>

definition get_api_messages :: "env \<Rightarrow> response io" where
  "get_api_messages e =
     try_catch
       (io_bind
          (io_if redis_available
             (io_bind (redis_get e REDIS_MESSAGES_KEY) (\<lambda>cachedMessages.
                case cachedMessages of
                  Some cached \<Rightarrow>
                    io_bind (console_log ''Serving messages from Redis cache'') (\<lambda>_.
                    io_return (Some (Response 200 (JsonRows (JSON_parse cached)))))
                | None \<Rightarrow> io_return None))
             (io_bind (console_log ''Redis client not available or not open, skipping cache lookup.'') (\<lambda>_.
              io_return None)))
          (\<lambda>returned.
             case returned of
               Some res \<Rightarrow> io_return res
             | None \<Rightarrow>
                 io_if (\<lambda>w. dbPool w = None)
                   (io_return (Response 503 (JsonError ''Database service not available.'')))
                   (io_bind (console_log ''Fetching messages from MySQL'') (\<lambda>_.
                    io_bind (db_query_all e) (\<lambda>rows.
                    io_bind
                      (io_if redis_available
                         (io_bind (redis_setEx e REDIS_MESSAGES_KEY 3600 (JSON_stringify rows)) (\<lambda>_.
                          console_log ''Messages cached in Redis''))
                         (io_return ())) (\<lambda>_.
                    io_return (Response 200 (JsonRows rows))))))))
       (\<lambda>error.
          io_bind (console_error ''Error fetching messages:'') (\<lambda>_.
          io_return (Response 500 (JsonError ''Failed to retrieve messages''))))"

text \<open>Lines 179 to 184 of the POST handler: the cached list is deleted when the client is open.\<close>

definition invalidate_cache :: "env \<Rightarrow> unit io" where
  "invalidate_cache e =
     io_if redis_available
       (io_bind (redis_del e REDIS_MESSAGES_KEY) (\<lambda>_.
        console_log ''Redis cache for messages invalidated.''))
       (console_log ''Redis client not available or not open, skipping cache invalidation.'')"

text \<open>
  \<^verbatim>\<open>app.post('/api/messages', ...)\<close>, lines 162 to 193, applied to \<^verbatim>\<open>req.body.content\<close>, where
  \<^verbatim>\<open>req.body\<close> is the object or array that \<^verbatim>\<open>express.json()\<close> has parsed. The test
  of line 165 stands before the \<^verbatim>\<open>try\<close>: what \<^verbatim>\<open>content.trim()\<close> throws there leaves the handler
  (the result is \<open>Inl\<close>) and no response is written. \<^verbatim>\<open>newMessages[0]\<close> of an empty result is
  \<^verbatim>\<open>undefined\<close>, the body \<open>JsonRow None\<close>.
\<close>

definition post_api_messages :: "env \<Rightarrow> js_value \<Rightarrow> response io" where
  "post_api_messages e req_content =
     (if \<not> truthy req_content
      then io_return (Response 400 (JsonError ''Message content cannot be empty''))
      else
        io_bind (io_lift (call_trim req_content)) (\<lambda>t.
          if t = []
          then io_return (Response 400 (JsonError ''Message content cannot be empty''))
          else
            try_catch
              (io_if (\<lambda>w. dbPool w = None)
                 (io_return (Response 503 (JsonError ''Database service not available.'')))
                 (io_bind (io_lift (call_trim req_content)) (\<lambda>trimmed.
                  io_bind (db_execute_insert e trimmed) (\<lambda>newMessageId.
                  io_bind (invalidate_cache e) (\<lambda>_.
                  io_bind (db_query_by_id e newMessageId) (\<lambda>newMessages.
                  io_return (Response 201 (JsonRow (case newMessages of [] \<Rightarrow> None | r # _ \<Rightarrow> Some r)))))))))
              (\<lambda>error.
                 io_bind (console_error ''Error posting message:'') (\<lambda>_.
                 io_return (Response 500 (JsonError ''Failed to post message''))))))"

subsection \<open>Serving a sequence of requests\<close>

datatype request = GET_api_messages | POST_api_messages js_value

fun handle :: "env \<times> request \<Rightarrow> response io" where
  "handle (e, GET_api_messages) = get_api_messages e"
| "handle (e, POST_api_messages v) = post_api_messages e v"

text \<open>The state after a list of requests, each with its environment, served one after the other.\<close>

fun serve :: "(env \<times> request) list \<Rightarrow> world \<Rightarrow> world" where
  "serve [] w = w"
| "serve (r # rs) w = serve rs (snd (handle r w))"

text \<open>
  The state in which \<^verbatim>\<open>startServer\<close> starts to listen on fresh servers: \<^verbatim>\<open>initializeMySQL\<close> has
  set the pool and created the empty table, \<^verbatim>\<open>initializeRedis\<close> has set the client or left it
  undefined.
\<close>

definition initial_world :: "redis_client option \<Rightarrow> world" where
  "initial_world rc =
     \<lparr>dbPool = Some Pool, redisClient = rc, db = \<lparr>rows = [], auto_increment = 1\<rparr>,
      redis = Map.empty, trace = []\<rparr>"

subsection \<open>Sample states\<close>

text \<open>Two rows in the table, the client open, and a cached list (of the first row only) that expires at 3650.\<close>

definition cached_world :: world where
  "cached_world =
     \<lparr>dbPool = Some Pool, redisClient = Some \<lparr>isOpen = True\<rparr>,
      db = \<lparr>rows = [\<lparr>id' = 1, content = [0x68, 0x69], created_at = 50\<rparr>,
                   \<lparr>id' = 2, content = [0x79, 0x6F], created_at = 60\<rparr>],
            auto_increment = 3\<rparr>,
      redis = [REDIS_MESSAGES_KEY \<mapsto>
                 \<lparr>text_value = JsonText [\<lparr>id' = 1, content = [0x68, 0x69], created_at = 50\<rparr>],
                  expires_at = 3650\<rparr>],
      trace = []\<rparr>"

text \<open>
  A state the server reaches: started with the client open, it has served a create request
  with content \<^verbatim>\<open>hi\<close> at time 10 and a list request at time 20, so that the table holds one row
  and the cache holds the list of that row until 3620.
\<close>

definition one_row_cached :: world where
  "one_row_cached =
     serve [(calm 10, POST_api_messages (JString [0x68, 0x69])), (calm 20, GET_api_messages)]
       (initial_world (Some \<lparr>isOpen = True\<rparr>))"



subsection \<open>Predicates on the state\<close>

text \<open>What PRIMARY KEY with AUTO_INCREMENT maintains: every id in the table is below the next one.\<close>

definition ids_below_auto_increment :: "store \<Rightarrow> bool" where
  "ids_below_auto_increment d = (\<forall>r \<in> set (rows d). id' r < auto_increment d)"

text \<open>Content that is not empty, not made of white space only, and equal to its own trimming.\<close>

definition trimmed_not_blank :: "js_string \<Rightarrow> bool" where
  "trimmed_not_blank c = (c \<noteq> [] \<and> \<not> (\<forall>x \<in> set c. is_white_space x) \<and> trim c = c)"




section \<open>Properties\<close>

subsection \<open>Unfolding the handlers\<close>

lemmas io_defs = io_return_def io_lift_def io_bind_def try_catch_def io_if_def emit_def
  console_log_def console_error_def Let_def

lemmas ext_defs = redis_get_def redis_setEx_def redis_del_def
  db_query_all_def db_execute_insert_def db_query_by_id_def

lemma redis_available_update [simp]:
  "redis_available (w\<lparr>trace := t\<rparr>) = redis_available w"
  "redis_available (w\<lparr>db := d\<rparr>) = redis_available w"
  "redis_available (w\<lparr>redis := m\<rparr>) = redis_available w"
  by (simp_all add: redis_available_def)

subsection \<open>Trimming\<close>

lemma dropWhile_fixed: "xs \<noteq> [] \<Longrightarrow> \<not> P (hd xs) \<Longrightarrow> dropWhile P xs = xs"
  by (cases xs) auto

lemma all_dropWhile: "(\<forall>x\<in>set (dropWhile P xs). P x) \<longleftrightarrow> (\<forall>x\<in>set xs. P x)"
proof
  assume a: "\<forall>x\<in>set (dropWhile P xs). P x"
  have "dropWhile P xs = []"
  proof (rule ccontr)
    assume n: "dropWhile P xs \<noteq> []"
    then have "\<not> P (hd (dropWhile P xs))" by (rule hd_dropWhile)
    moreover have "hd (dropWhile P xs) \<in> set (dropWhile P xs)" using n by (rule hd_in_set)
    ultimately show False using a by blast
  qed
  then show "\<forall>x\<in>set xs. P x" by simp
next
  assume "\<forall>x\<in>set xs. P x"
  then show "\<forall>x\<in>set (dropWhile P xs). P x" by (blast dest: set_dropWhileD)
qed

lemma trim_eq_Nil_iff: "trim s = [] \<longleftrightarrow> (\<forall>c \<in> set s. is_white_space c)"
  by (simp add: trim_def all_dropWhile)

lemma trim_nonempty_ends:
  assumes "trim s \<noteq> []"
  shows "\<not> is_white_space (hd (trim s))" and "\<not> is_white_space (last (trim s))"
proof -
  let ?t = "dropWhile is_white_space s"
  let ?u = "dropWhile is_white_space (rev ?t)"
  have u: "?u \<noteq> []" using assms by (simp only: trim_def rev_is_Nil_conv not_False_eq_True)
  have t: "?t \<noteq> []"
  proof
    assume "?t = []"
    then have "?u = []" by (simp only: rev.simps dropWhile.simps)
    with u show False by contradiction
  qed
  have "\<not> is_white_space (hd ?u)" using u by (rule hd_dropWhile)
  then show "\<not> is_white_space (last (trim s))"
    using u by (simp add: trim_def last_rev)
  have "rev ?t = takeWhile is_white_space (rev ?t) @ ?u" by simp
  then have "?t = rev ?u @ rev (takeWhile is_white_space (rev ?t))"
    by (metis rev_append rev_rev_ident)
  then have "hd ?t = hd (rev ?u)" using u by (metis hd_append2 rev_is_Nil_conv)
  moreover have "\<not> is_white_space (hd ?t)" using t by (rule hd_dropWhile)
  ultimately show "\<not> is_white_space (hd (trim s))" by (simp add: trim_def)
qed

lemma trim_fixed:
  assumes "c \<noteq> []" "\<not> is_white_space (hd c)" "\<not> is_white_space (last c)"
  shows "trim c = c"
proof -
  have 1: "dropWhile is_white_space c = c" using assms(1,2) by (rule dropWhile_fixed)
  have a: "\<not> is_white_space (hd (rev c))" using assms(1,3) by (simp add: hd_rev)
  have b: "rev c \<noteq> []" using assms(1) by simp
  have 2: "dropWhile is_white_space (rev c) = rev c" using b a by (rule dropWhile_fixed)
  show ?thesis by (simp add: trim_def 1 2)
qed

lemma trim_idem: "trim (trim s) = trim s"
proof (cases "trim s = []")
  case True
  moreover have "trim [] = []" by (simp add: trim_def)
  ultimately show ?thesis by simp
next
  case False then show ?thesis by (intro trim_fixed trim_nonempty_ends)
qed


subsection \<open>The ordered SELECT\<close>




subsection \<open>Validation\<close>

text \<open>
  C2: when the content is missing (\<^verbatim>\<open>undefined\<close>, or any other falsy value) or is a string that
  trims to the empty string, the POST handler answers 400 with the body
  \<^verbatim>\<open>{error: "Message content cannot be empty"}\<close> and leaves the whole state as it was: no row is
  added, no Redis key changes, and no external call is made.
\<close>

theorem post_blank_content_is_400_and_touches_nothing:
  assumes "\<not> truthy req_content \<or> (\<exists>s. req_content = JString s \<and> trim s = [])"
  shows "post_api_messages e req_content w =
           (Inr (Response 400 (JsonError ''Message content cannot be empty'')), w)"
  using assms by (auto simp: post_api_messages_def io_defs)

theorem post_blank_content_is_400_and_touches_nothing_witness:
  "post_api_messages (calm 100) (JString [0x20, 0x20, 0x20]) (initial_world None) =
     (Inr (Response 400 (JsonError ''Message content cannot be empty'')), initial_world None)
   \<and> post_api_messages (calm 100) (JString []) (initial_world None) =
     (Inr (Response 400 (JsonError ''Message content cannot be empty'')), initial_world None)
   \<and> post_api_messages (calm 100) JUndefined (initial_world None) =
     (Inr (Response 400 (JsonError ''Message content cannot be empty'')), initial_world None)"
proof -
  have a: "trim [0x20, 0x20, 0x20] = []" by (simp add: trim_def is_white_space_def)
  have b: "trim [] = []" by (simp add: trim_def)
  show ?thesis
    using post_blank_content_is_400_and_touches_nothing
            [of "JString [0x20, 0x20, 0x20]" "calm 100" "initial_world None"]
          post_blank_content_is_400_and_touches_nothing
            [of "JString []" "calm 100" "initial_world None"]
          post_blank_content_is_400_and_touches_nothing
            [of JUndefined "calm 100" "initial_world None"] a b
    by simp
qed

text \<open>
  C10: when the content is truthy and not a string, the call \<^verbatim>\<open>content.trim()\<close> of line 165
  throws a TypeError outside the \<^verbatim>\<open>try\<close>: the handler ends with that exception instead of a
  response, and the state is as it was (no row is added).
\<close>

theorem post_truthy_non_string_throws_type_error:
  assumes "truthy req_content" and "\<forall>s. req_content \<noteq> JString s"
  shows "post_api_messages e req_content w = (Inl TypeError, w)"
  using assms by (cases req_content) (auto simp: post_api_messages_def io_defs)

theorem post_truthy_non_string_throws_type_error_witness:
  "post_api_messages (calm 100) (JNumber 5) (initial_world None) = (Inl TypeError, initial_world None)
   \<and> post_api_messages (calm 100) (JObject []) (initial_world None) = (Inl TypeError, initial_world None)"
  using post_truthy_non_string_throws_type_error [of "JNumber 5" "calm 100" "initial_world None"]
        post_truthy_non_string_throws_type_error [of "JObject []" "calm 100" "initial_world None"]
  by simp

subsection \<open>Reading through the cache\<close>

text \<open>
  C6: when the client is open, GET does not throw and the key holds an unexpired text, the
  list handler answers 200 with the parsed text, and the only effects are the GET command and
  one console line: the table is not queried. Conversely, whenever the handler does send the
  SELECT, the client was absent or closed, or GET had replied null.
\<close>

theorem list_cache_hit_skips_the_store:
  "(redis_available w \<and> \<not> redis_get_throws e
      \<and> live (now e) (redis w) REDIS_MESSAGES_KEY = Some cached
    \<longrightarrow> get_api_messages e w =
          (Inr (Response 200 (JsonRows (JSON_parse cached))),
           w\<lparr>trace := trace w @ [RedisGet REDIS_MESSAGES_KEY,
                                  ConsoleLog ''Serving messages from Redis cache'']\<rparr>))
   \<and> (DbSelectAll \<in> set (drop (length (trace w)) (trace (snd (get_api_messages e w))))
    \<longrightarrow> \<not> redis_available w
        \<or> (\<not> redis_get_throws e \<and> live (now e) (redis w) REDIS_MESSAGES_KEY = None))"
proof (intro conjI impI)
  assume "redis_available w \<and> \<not> redis_get_throws e
      \<and> live (now e) (redis w) REDIS_MESSAGES_KEY = Some cached"
  then show "get_api_messages e w =
          (Inr (Response 200 (JsonRows (JSON_parse cached))),
           w\<lparr>trace := trace w @ [RedisGet REDIS_MESSAGES_KEY,
                                  ConsoleLog ''Serving messages from Redis cache'']\<rparr>)"
    by (simp add: get_api_messages_def io_defs ext_defs)
next
  assume "DbSelectAll \<in> set (drop (length (trace w)) (trace (snd (get_api_messages e w))))"
  then show "\<not> redis_available w
        \<or> (\<not> redis_get_throws e \<and> live (now e) (redis w) REDIS_MESSAGES_KEY = None)"
    by (auto simp: get_api_messages_def io_defs ext_defs split: option.splits if_splits)
qed

theorem list_cache_hit_skips_the_store_witness:
  "get_api_messages (calm 100) cached_world =
     (Inr (Response 200 (JsonRows [\<lparr>id' = 1, content = [0x68, 0x69], created_at = 50\<rparr>])),
      cached_world\<lparr>trace := [RedisGet REDIS_MESSAGES_KEY,
                              ConsoleLog ''Serving messages from Redis cache'']\<rparr>)
   \<and> DbSelectAll \<in> set (drop (length (trace (initial_world None)))
                           (trace (snd (get_api_messages (calm 100) (initial_world None)))))
   \<and> \<not> redis_available (initial_world None)"
proof -
  have hit: "redis_available cached_world \<and> \<not> redis_get_throws (calm 100)
      \<and> live (now (calm 100)) (redis cached_world) REDIS_MESSAGES_KEY
          = Some (JsonText [\<lparr>id' = 1, content = [0x68, 0x69], created_at = 50\<rparr>])"
    by (simp add: cached_world_def calm_def redis_available_def live_def)
  have sel: "DbSelectAll \<in> set (drop (length (trace (initial_world None)))
                           (trace (snd (get_api_messages (calm 100) (initial_world None)))))"
    by (simp add: get_api_messages_def io_defs ext_defs initial_world_def calm_def
          redis_available_def)
  have una: "\<not> redis_available (initial_world None)"
    by (simp add: initial_world_def redis_available_def)
  from list_cache_hit_skips_the_store
         [of cached_world "calm 100" "JsonText [\<lparr>id' = 1, content = [0x68, 0x69], created_at = 50\<rparr>]"]
       hit sel una
  show ?thesis by (simp add: cached_world_def)
qed

text \<open>
  C8: on a miss with the client open (GET replies null), once the SELECT has returned, the
  list handler sends SETEX with the key \<^verbatim>\<open>guestbook:messages\<close>, 3600 seconds and the serialized
  result of the SELECT, directly after the SELECT. When SETEX succeeds the answer is 200 with
  the list, no other key changes, and the key is readable at exactly the times before
  \<open>now + 3600\<close>.
\<close>

theorem list_miss_caches_full_list_for_3600_seconds:
  assumes "redis_available w" and "\<not> redis_get_throws e"
    and "live (now e) (redis w) REDIS_MESSAGES_KEY = None"
    and "dbPool w \<noteq> None" and "\<not> db_select_all_throws e"
  shows "(\<exists>evs. trace (snd (get_api_messages e w)) =
           trace w @ [RedisGet REDIS_MESSAGES_KEY, ConsoleLog ''Fetching messages from MySQL'',
                      DbSelectAll,
                      RedisSetEx ''guestbook:messages'' 3600
                        (JSON_stringify (select_order_by_created_at_desc (rows (db w))))] @ evs)
    \<and> (\<not> redis_setEx_throws e \<longrightarrow>
           fst (get_api_messages e w) =
             Inr (Response 200 (JsonRows (select_order_by_created_at_desc (rows (db w)))))
           \<and> redis (snd (get_api_messages e w)) =
               (redis w)(''guestbook:messages'' \<mapsto>
                  \<lparr>text_value = JSON_stringify (select_order_by_created_at_desc (rows (db w))),
                   expires_at = now e + 3600\<rparr>)
           \<and> (\<forall>t. live t (redis (snd (get_api_messages e w))) ''guestbook:messages'' =
                  (if t < now e + 3600
                   then Some (JSON_stringify (select_order_by_created_at_desc (rows (db w))))
                   else None)))"
  using assms
  by (auto simp: get_api_messages_def io_defs ext_defs REDIS_MESSAGES_KEY_def live_def)

theorem list_miss_caches_full_list_for_3600_seconds_witness:
  "(\<exists>evs. trace (snd (get_api_messages (calm 4000) cached_world)) =
      [RedisGet REDIS_MESSAGES_KEY, ConsoleLog ''Fetching messages from MySQL'', DbSelectAll,
       RedisSetEx ''guestbook:messages'' 3600
         (JsonText [\<lparr>id' = 2, content = [0x79, 0x6F], created_at = 60\<rparr>,
                    \<lparr>id' = 1, content = [0x68, 0x69], created_at = 50\<rparr>])] @ evs)
   \<and> redis (snd (get_api_messages (calm 4000) cached_world)) ''guestbook:messages'' =
       Some \<lparr>text_value = JsonText [\<lparr>id' = 2, content = [0x79, 0x6F], created_at = 60\<rparr>,
                                    \<lparr>id' = 1, content = [0x68, 0x69], created_at = 50\<rparr>],
             expires_at = 7600\<rparr>
   \<and> live 7599 (redis (snd (get_api_messages (calm 4000) cached_world))) ''guestbook:messages''
       = Some (JsonText [\<lparr>id' = 2, content = [0x79, 0x6F], created_at = 60\<rparr>,
                         \<lparr>id' = 1, content = [0x68, 0x69], created_at = 50\<rparr>])
   \<and> live 7600 (redis (snd (get_api_messages (calm 4000) cached_world))) ''guestbook:messages''
       = None"
proof -
  have h: "redis_available cached_world" "\<not> redis_get_throws (calm 4000)"
    "live (now (calm 4000)) (redis cached_world) REDIS_MESSAGES_KEY = None"
    "dbPool cached_world \<noteq> None" "\<not> db_select_all_throws (calm 4000)"
    by (simp_all add: cached_world_def calm_def redis_available_def live_def)
  have s: "select_order_by_created_at_desc (rows (db cached_world)) =
             [\<lparr>id' = 2, content = [0x79, 0x6F], created_at = 60\<rparr>,
              \<lparr>id' = 1, content = [0x68, 0x69], created_at = 50\<rparr>]"
    by (simp add: select_order_by_created_at_desc_def cached_world_def)
  have n: "\<not> redis_setEx_throws (calm 4000)" "now (calm 4000) = 4000" by (simp_all add: calm_def)
  have t: "trace cached_world = []" by (simp add: cached_world_def)
  from list_miss_caches_full_list_for_3600_seconds [OF h] n s t
  show ?thesis by (simp add: live_def)
qed

subsection \<open>Invalidation\<close>

text \<open>
  C9: when DEL does not throw, running the invalidation block twice in a row equals running
  it once: both runs end without an exception, the second leaves the Redis key space and the
  table exactly as the first left them, the key is absent after the first run when the client
  is open, and the second DEL replies that it removed nothing.
\<close>

theorem invalidate_cache_twice_same_as_once:
  assumes "\<not> redis_del_throws e1" and "\<not> redis_del_throws e2"
  shows "fst (invalidate_cache e1 w) = Inr ()
    \<and> fst (invalidate_cache e2 (snd (invalidate_cache e1 w))) = Inr ()
    \<and> redis (snd (invalidate_cache e2 (snd (invalidate_cache e1 w))))
        = redis (snd (invalidate_cache e1 w))
    \<and> db (snd (invalidate_cache e2 (snd (invalidate_cache e1 w))))
        = db (snd (invalidate_cache e1 w))
    \<and> (redis_available w \<longrightarrow>
          redis (snd (invalidate_cache e1 w)) REDIS_MESSAGES_KEY = None
        \<and> fst (redis_del e2 REDIS_MESSAGES_KEY (snd (invalidate_cache e1 w))) = Inr 0)"
  using assms
  by (cases "redis_available w") (simp_all add: invalidate_cache_def io_defs ext_defs live_def)

theorem invalidate_cache_twice_same_as_once_witness:
  "fst (invalidate_cache (calm 100) cached_world) = Inr ()
   \<and> fst (invalidate_cache (calm 101) (snd (invalidate_cache (calm 100) cached_world))) = Inr ()
   \<and> redis (snd (invalidate_cache (calm 101) (snd (invalidate_cache (calm 100) cached_world))))
       = redis (snd (invalidate_cache (calm 100) cached_world))
   \<and> redis cached_world REDIS_MESSAGES_KEY \<noteq> None
   \<and> redis (snd (invalidate_cache (calm 100) cached_world)) REDIS_MESSAGES_KEY = None
   \<and> fst (redis_del (calm 101) REDIS_MESSAGES_KEY (snd (invalidate_cache (calm 100) cached_world)))
       = Inr 0"
proof -
  have h: "\<not> redis_del_throws (calm 100)" "\<not> redis_del_throws (calm 101)"
    by (simp_all add: calm_def)
  have a: "redis_available cached_world" "redis cached_world REDIS_MESSAGES_KEY \<noteq> None"
    by (simp_all add: cached_world_def redis_available_def)
  from invalidate_cache_twice_same_as_once [OF h, of cached_world] a
  show ?thesis by simp
qed

subsection \<open>Creating a message\<close>

lemma get_api_messages_db [simp]: "db (snd (get_api_messages e w)) = db w"
  by (auto simp: get_api_messages_def io_defs ext_defs split: option.splits)

lemma post_api_messages_db:
  "db (snd (post_api_messages e v w)) = db w
   \<or> (\<exists>s. v = JString s \<and> trim s \<noteq> []
          \<and> db (snd (post_api_messages e v w)) =
              \<lparr>rows = rows (db w) @ [\<lparr>id' = auto_increment (db w), content = trim s, created_at = now e\<rparr>],
               auto_increment = auto_increment (db w) + 1\<rparr>)"
proof (cases v)
  case (JString s)
  then show ?thesis
    by (cases "redis_available w")
       (auto simp: post_api_messages_def invalidate_cache_def io_defs ext_defs)
qed (auto simp: post_api_messages_def io_defs)

lemma handle_ids_below_auto_increment:
  assumes "ids_below_auto_increment (db w)"
  shows "ids_below_auto_increment (db (snd (handle r w)))"
proof (cases r)
  case (Pair e q)
  show ?thesis
  proof (cases q)
    case GET_api_messages
    with Pair assms show ?thesis by simp
  next
    case (POST_api_messages v)
    from post_api_messages_db [of e v w] Pair POST_api_messages assms show ?thesis
      by (auto simp: ids_below_auto_increment_def less_Suc_eq)
  qed
qed

lemma serve_ids_below_auto_increment:
  "ids_below_auto_increment (db w) \<Longrightarrow> ids_below_auto_increment (db (serve rs w))"
  by (induction rs arbitrary: w) (simp_all add: handle_ids_below_auto_increment)

lemma initial_world_ids_below_auto_increment:
  "ids_below_auto_increment (db (initial_world rc))"
  by (simp add: ids_below_auto_increment_def initial_world_def)

text \<open>
  C4: for content that is a string with a non-empty trimming, when the pool is set and
  neither the INSERT, the DEL (sent only when the client is open) nor the SELECT by id
  throws, the POST handler answers 201 with the row that the SELECT by id finds in the table
  after the INSERT: its id is the AUTO_INCREMENT value, its \<open>created_at\<close> the time of the
  INSERT, its content the trimmed string. The trace shows the order: INSERT, then DEL of the
  cached list (when the client is open), then the SELECT by id.
\<close>

theorem post_returns_the_row_read_back_by_id:
  assumes "trim s \<noteq> []" and "dbPool w \<noteq> None" and "ids_below_auto_increment (db w)"
    and "\<not> db_insert_throws e" and "\<not> db_select_by_id_throws e"
    and "redis_available w \<longrightarrow> \<not> redis_del_throws e"
  shows "post_api_messages e (JString s) w =
     (Inr (Response 201
        (JsonRow (Some \<lparr>id' = auto_increment (db w), content = trim s, created_at = now e\<rparr>))),
      w\<lparr>db := \<lparr>rows = rows (db w) @
                   [\<lparr>id' = auto_increment (db w), content = trim s, created_at = now e\<rparr>],
               auto_increment = auto_increment (db w) + 1\<rparr>,
        redis := (if redis_available w then (redis w)(REDIS_MESSAGES_KEY := None) else redis w),
        trace := trace w @
          (if redis_available w
           then [DbInsert (trim s), RedisDel REDIS_MESSAGES_KEY,
                 ConsoleLog ''Redis cache for messages invalidated.'',
                 DbSelectById (auto_increment (db w))]
           else [DbInsert (trim s),
                 ConsoleLog ''Redis client not available or not open, skipping cache invalidation.'',
                 DbSelectById (auto_increment (db w))])\<rparr>)
   \<and> filter (\<lambda>r. id' r = auto_increment (db w))
        (rows (db (snd (post_api_messages e (JString s) w)))) =
       [\<lparr>id' = auto_increment (db w), content = trim s, created_at = now e\<rparr>]"
proof -
  have ne: "s \<noteq> []" using assms(1) by (auto simp: trim_def)
  have f: "filter (\<lambda>r. id' r = auto_increment (db w)) (rows (db w)) = []"
    using assms(3) by (auto simp: filter_empty_conv ids_below_auto_increment_def)
  show ?thesis using assms(1,2,4,5,6) ne f
    by (cases "redis_available w")
       (simp_all add: post_api_messages_def invalidate_cache_def io_defs ext_defs)
qed

theorem post_returns_the_row_read_back_by_id_witness:
  "post_api_messages (calm 100) (JString [0x20, 0x6F, 0x6B, 0x0A]) cached_world =
     (Inr (Response 201 (JsonRow (Some \<lparr>id' = 3, content = [0x6F, 0x6B], created_at = 100\<rparr>))),
      cached_world\<lparr>db := \<lparr>rows = [\<lparr>id' = 1, content = [0x68, 0x69], created_at = 50\<rparr>,
                                   \<lparr>id' = 2, content = [0x79, 0x6F], created_at = 60\<rparr>,
                                   \<lparr>id' = 3, content = [0x6F, 0x6B], created_at = 100\<rparr>],
                           auto_increment = 4\<rparr>,
                   redis := Map.empty,
                   trace := [DbInsert [0x6F, 0x6B], RedisDel REDIS_MESSAGES_KEY,
                             ConsoleLog ''Redis cache for messages invalidated.'',
                             DbSelectById 3]\<rparr>)"
proof -
  have t: "trim [0x20, 0x6F, 0x6B, 0x0A] = [0x6F, 0x6B]"
    by (simp add: trim_def is_white_space_def)
  have h: "trim [0x20, 0x6F, 0x6B, 0x0A] \<noteq> []" "dbPool cached_world \<noteq> None"
    "ids_below_auto_increment (db cached_world)"
    "\<not> db_insert_throws (calm 100)" "\<not> db_select_by_id_throws (calm 100)"
    "redis_available cached_world \<longrightarrow> \<not> redis_del_throws (calm 100)"
    by (simp_all add: t cached_world_def calm_def ids_below_auto_increment_def)
  have a: "redis_available cached_world" by (simp add: cached_world_def redis_available_def)
  from post_returns_the_row_read_back_by_id [OF h] a t
  show ?thesis by (simp add: cached_world_def calm_def)
qed

subsection \<open>What the table holds\<close>

lemma trim_trimmed_not_blank:
  assumes "trim s \<noteq> []"
  shows "trimmed_not_blank (trim s)"
proof -
  have "trim (trim s) \<noteq> []" using assms by (simp add: trim_idem)
  then have "\<not> (\<forall>x \<in> set (trim s). is_white_space x)" by (simp add: trim_eq_Nil_iff)
  with assms show ?thesis by (simp add: trimmed_not_blank_def trim_idem)
qed

lemma handle_trimmed_not_blank:
  assumes "\<forall>m \<in> set (rows (db w)). trimmed_not_blank (content m)"
  shows "\<forall>m \<in> set (rows (db (snd (handle r w)))). trimmed_not_blank (content m)"
proof (cases r)
  case (Pair e q)
  show ?thesis
  proof (cases q)
    case GET_api_messages
    with Pair assms show ?thesis by simp
  next
    case (POST_api_messages v)
    from post_api_messages_db [of e v w] Pair POST_api_messages assms show ?thesis
      by (auto simp: trim_trimmed_not_blank)
  qed
qed

text \<open>
  C7: if every row of the table has content that is non-empty, not white space only and equal
  to its own trimming (as in the empty table the server starts with), then so has every row
  after any sequence of list and create requests, whatever their bodies and whichever calls
  throw. The only statement that writes rows is the INSERT of line 173, whose value is the
  trimmed string that line 165 found non-empty.
\<close>

theorem stored_content_stays_trimmed_and_not_blank:
  assumes "\<forall>m \<in> set (rows (db w)). trimmed_not_blank (content m)"
  shows "\<forall>m \<in> set (rows (db (serve reqs w))). trimmed_not_blank (content m)"
  using assms
proof (induction reqs arbitrary: w)
  case Nil
  then show ?case by simp
next
  case (Cons r reqs)
  have "\<forall>m \<in> set (rows (db (snd (handle r w)))). trimmed_not_blank (content m)"
    using Cons.prems by (rule handle_trimmed_not_blank)
  then show ?case using Cons.IH by simp
qed

theorem stored_content_stays_trimmed_and_not_blank_witness:
  "rows (db (serve [(calm 10, POST_api_messages (JString [0x20, 0x68, 0x69, 0x20])),
                    (calm 11, POST_api_messages (JString [0x20, 0x09])),
                    (calm 12, GET_api_messages),
                    (calm 13, POST_api_messages (JNumber 7))]
                   (initial_world (Some \<lparr>isOpen = True\<rparr>))))
     = [\<lparr>id' = 1, content = [0x68, 0x69], created_at = 10\<rparr>]
   \<and> trimmed_not_blank [0x68, 0x69]"
proof -
  let ?reqs = "[(calm 10, POST_api_messages (JString [0x20, 0x68, 0x69, 0x20])),
                (calm 11, POST_api_messages (JString [0x20, 0x09])),
                (calm 12, GET_api_messages),
                (calm 13, POST_api_messages (JNumber 7))]"
  let ?w = "initial_world (Some \<lparr>isOpen = True\<rparr>)"
  have t: "trim [0x20, 0x68, 0x69, 0x20] = [0x68, 0x69]" "trim [0x20, 0x09] = []"
    by (simp_all add: trim_def is_white_space_def)
  have 1: "snd (post_api_messages (calm 10) (JString [0x20, 0x68, 0x69, 0x20]) ?w) =
             ?w\<lparr>db := \<lparr>rows = [\<lparr>id' = 1, content = [0x68, 0x69], created_at = 10\<rparr>],
                        auto_increment = 2\<rparr>,
                trace := [DbInsert [0x68, 0x69], RedisDel REDIS_MESSAGES_KEY,
                          ConsoleLog ''Redis cache for messages invalidated.'',
                          DbSelectById 1]\<rparr>"
    by (simp add: post_api_messages_def invalidate_cache_def io_defs ext_defs t
          initial_world_def calm_def redis_available_def)
  have r: "rows (db (serve ?reqs ?w)) = [\<lparr>id' = 1, content = [0x68, 0x69], created_at = 10\<rparr>]"
    by (simp add: 1) (simp add: post_api_messages_def io_defs t)
  have i: "\<forall>m \<in> set (rows (db ?w)). trimmed_not_blank (content m)"
    by (simp add: initial_world_def)
  from stored_content_stays_trimmed_and_not_blank [OF i, of ?reqs] r
  show ?thesis by simp
qed

subsection \<open>What a request leaves of the handles and of the cached list\<close>

lemma get_api_messages_handles [simp]:
  "dbPool (snd (get_api_messages e w)) = dbPool w"
  "redisClient (snd (get_api_messages e w)) = redisClient w"
  by (auto simp: get_api_messages_def io_defs ext_defs split: option.splits)

lemma post_api_messages_handles [simp]:
  "dbPool (snd (post_api_messages e v w)) = dbPool w \<and>
   redisClient (snd (post_api_messages e v w)) = redisClient w"
proof (cases v)
  case (JString s)
  then show ?thesis
    by (cases "redis_available w")
       (simp_all add: post_api_messages_def invalidate_cache_def io_defs ext_defs)
qed (simp_all add: post_api_messages_def io_defs)














subsection \<open>The sample states, computed\<close>

lemma trim_hi: "trim [0x68, 0x69] = [0x68, 0x69]"
  by (simp add: trim_def is_white_space_def)

lemma trim_ok: "trim [0x6F, 0x6B] = [0x6F, 0x6B]"
  by (simp add: trim_def is_white_space_def)

lemma one_row_cached_eq:
  "one_row_cached =
     \<lparr>dbPool = Some Pool, redisClient = Some \<lparr>isOpen = True\<rparr>,
      db = \<lparr>rows = [\<lparr>id' = 1, content = [0x68, 0x69], created_at = 10\<rparr>], auto_increment = 2\<rparr>,
      redis = [REDIS_MESSAGES_KEY \<mapsto>
                 \<lparr>text_value = JsonText [\<lparr>id' = 1, content = [0x68, 0x69], created_at = 10\<rparr>],
                  expires_at = 3620\<rparr>],
      trace = [DbInsert [0x68, 0x69], RedisDel REDIS_MESSAGES_KEY,
               ConsoleLog ''Redis cache for messages invalidated.'', DbSelectById 1,
               RedisGet REDIS_MESSAGES_KEY, ConsoleLog ''Fetching messages from MySQL'',
               DbSelectAll,
               RedisSetEx REDIS_MESSAGES_KEY 3600
                 (JsonText [\<lparr>id' = 1, content = [0x68, 0x69], created_at = 10\<rparr>]),
               ConsoleLog ''Messages cached in Redis'']\<rparr>"
proof -
  let ?w = "initial_world (Some \<lparr>isOpen = True\<rparr>)"
  have 1: "snd (post_api_messages (calm 10) (JString [0x68, 0x69]) ?w) =
     ?w\<lparr>db := \<lparr>rows = [\<lparr>id' = 1, content = [0x68, 0x69], created_at = 10\<rparr>],
                auto_increment = 2\<rparr>,
         trace := [DbInsert [0x68, 0x69], RedisDel REDIS_MESSAGES_KEY,
                   ConsoleLog ''Redis cache for messages invalidated.'', DbSelectById 1]\<rparr>"
    by (simp add: post_api_messages_def invalidate_cache_def io_defs ext_defs trim_hi
          initial_world_def calm_def redis_available_def)
  show ?thesis
    by (simp add: one_row_cached_def 1)
       (simp add: get_api_messages_def io_defs ext_defs initial_world_def calm_def
          redis_available_def live_def select_order_by_created_at_desc_def)
qed


subsection \<open>Listing after any requests\<close>




subsection \<open>A Redis command that throws\<close>

text \<open>
  C1 does not hold of the code. On the state \<open>one_row_cached\<close> a list request answers 200 from
  the cache, but 500 when GET throws; after the cached list has expired it answers 200 from
  the table, but 500 when SETEX throws; a create request answers 201, but 500 when DEL throws,
  and then the row is in the table all the same. None of the three calls has a \<^verbatim>\<open>try\<close> of its
  own: the exception reaches the \<^verbatim>\<open>catch\<close> of the handler.
\<close>

theorem redis_exception_is_answered_500:
  "fst (get_api_messages (calm 30) one_row_cached) =
     Inr (Response 200 (JsonRows [\<lparr>id' = 1, content = [0x68, 0x69], created_at = 10\<rparr>]))
   \<and> get_api_messages ((calm 30)\<lparr>redis_get_throws := True\<rparr>) one_row_cached =
     (Inr (Response 500 (JsonError ''Failed to retrieve messages'')),
      one_row_cached\<lparr>trace := trace one_row_cached @
         [RedisGet REDIS_MESSAGES_KEY, ConsoleError ''Error fetching messages:'']\<rparr>)
   \<and> fst (get_api_messages (calm 4000) one_row_cached) =
     Inr (Response 200 (JsonRows [\<lparr>id' = 1, content = [0x68, 0x69], created_at = 10\<rparr>]))
   \<and> fst (get_api_messages ((calm 4000)\<lparr>redis_setEx_throws := True\<rparr>) one_row_cached) =
     Inr (Response 500 (JsonError ''Failed to retrieve messages''))
   \<and> fst (post_api_messages (calm 30) (JString [0x6F, 0x6B]) one_row_cached) =
     Inr (Response 201 (JsonRow (Some \<lparr>id' = 2, content = [0x6F, 0x6B], created_at = 30\<rparr>)))
   \<and> fst (post_api_messages ((calm 30)\<lparr>redis_del_throws := True\<rparr>) (JString [0x6F, 0x6B])
            one_row_cached) =
     Inr (Response 500 (JsonError ''Failed to post message''))
   \<and> rows (db (snd (post_api_messages ((calm 30)\<lparr>redis_del_throws := True\<rparr>)
                       (JString [0x6F, 0x6B]) one_row_cached))) =
     [\<lparr>id' = 1, content = [0x68, 0x69], created_at = 10\<rparr>,
      \<lparr>id' = 2, content = [0x6F, 0x6B], created_at = 30\<rparr>]"
proof -
  have g: "fst (get_api_messages (calm 30) one_row_cached) =
     Inr (Response 200 (JsonRows [\<lparr>id' = 1, content = [0x68, 0x69], created_at = 10\<rparr>]))"
    "get_api_messages ((calm 30)\<lparr>redis_get_throws := True\<rparr>) one_row_cached =
     (Inr (Response 500 (JsonError ''Failed to retrieve messages'')),
      one_row_cached\<lparr>trace := trace one_row_cached @
         [RedisGet REDIS_MESSAGES_KEY, ConsoleError ''Error fetching messages:'']\<rparr>)"
    "fst (get_api_messages (calm 4000) one_row_cached) =
     Inr (Response 200 (JsonRows [\<lparr>id' = 1, content = [0x68, 0x69], created_at = 10\<rparr>]))"
    "fst (get_api_messages ((calm 4000)\<lparr>redis_setEx_throws := True\<rparr>) one_row_cached) =
     Inr (Response 500 (JsonError ''Failed to retrieve messages''))"
    by (simp_all add: one_row_cached_eq get_api_messages_def io_defs ext_defs
          redis_available_def live_def calm_def select_order_by_created_at_desc_def)
  have p: "fst (post_api_messages (calm 30) (JString [0x6F, 0x6B]) one_row_cached) =
     Inr (Response 201 (JsonRow (Some \<lparr>id' = 2, content = [0x6F, 0x6B], created_at = 30\<rparr>)))"
    "fst (post_api_messages ((calm 30)\<lparr>redis_del_throws := True\<rparr>) (JString [0x6F, 0x6B])
            one_row_cached) =
     Inr (Response 500 (JsonError ''Failed to post message''))"
    "rows (db (snd (post_api_messages ((calm 30)\<lparr>redis_del_throws := True\<rparr>)
                       (JString [0x6F, 0x6B]) one_row_cached))) =
     [\<lparr>id' = 1, content = [0x68, 0x69], created_at = 10\<rparr>,
      \<lparr>id' = 2, content = [0x6F, 0x6B], created_at = 30\<rparr>]"
    by (simp_all add: one_row_cached_eq post_api_messages_def invalidate_cache_def io_defs
          ext_defs redis_available_def calm_def trim_ok)
  from g p show ?thesis by (simp only: simp_thms)
qed

subsection \<open>Status codes when the Store fails\<close>





end
